theory Spec2Isabelle
  imports Complex_Main
begin

section \<open>Values and data\<close>

text \<open>
  A property of a JavaScript object is missing (\<open>undefined\<close>), \<open>null\<close> or holds a value.
  The empty object \<open>{}\<close> has every property \<open>Undefined\<close>; the worker writes \<open>null\<close>
  into a result where a quantity cannot be derived.

  A time is the time value of a \<open>Date\<close>, an integer number of milliseconds since the
  epoch; the ISO-8601 text that \<open>toISOString\<close> prints is represented by the instant it
  denotes.  The worker is modelled twice.  The first model computes with exact reals and
  takes every instant to lie in the range a \<open>Date\<close> can hold; it serves the properties
  that do not depend on rounding.  The second model, in the section on double
  arithmetic, has the rounding of IEEE doubles as a parameter and the exception that
  \<open>toISOString\<close> throws; it serves the passage flag and the time to go.
\<close>

datatype 'a js = Undefined | Null | Val 'a

text \<open>The plain position object of the data feed.\<close>

record Position =
  latitude :: real
  longitude :: real

text \<open>
  An input path of \<open>SKPaths\<close> is \<open>None\<close> when the test the worker applies to it fails:
  a position that is not truthy, a number whose \<open>typeof\<close> is not \<open>'number'\<close>, a datetime
  that is not truthy.  A present datetime is given by the time value \<open>new Date\<close>
  reads from it.
\<close>

record SKPaths =
  navigation_position :: "Position option"
  navigation_course_nextPoint_position :: "Position option"
  navigation_course_previousPoint_position :: "Position option"
  navigation_magneticVariation :: "real option"
  navigation_headingTrue :: "real option"
  navigation_speedOverGround :: "real option"
  navigation_datetime :: "int option"

text \<open>A point of the geodesy library, built by \<open>new LatLon(lat, lon)\<close>.\<close>

datatype LatLon = LatLon (lat: real) (lon: real)

text \<open>
  The spherical geodesy library (\<open>lib/geodesy/latlon-spherical.js\<close>) is not among the
  sources.  The five methods the worker calls are taken as a parameter; the receiver
  of the method is the first argument.
\<close>

record GeodesyOps =
  crossTrackDistanceTo :: "LatLon \<Rightarrow> LatLon \<Rightarrow> LatLon \<Rightarrow> real"
  initialBearingTo :: "LatLon \<Rightarrow> LatLon \<Rightarrow> real"
  distanceTo :: "LatLon \<Rightarrow> LatLon \<Rightarrow> real"
  rhumbBearingTo :: "LatLon \<Rightarrow> LatLon \<Rightarrow> real"
  rhumbDistanceTo :: "LatLon \<Rightarrow> LatLon \<Rightarrow> real"

record PreviousPoint =
  previousPoint_distance :: "real js"

record CourseResult =
  calcMethod :: "string js"
  bearingTrackTrue :: "real js"
  bearingTrackMagnetic :: "real js"
  crossTrackError :: "real js"
  distance :: "real js"
  bearingTrue :: "real js"
  bearingMagnetic :: "real js"
  velocityMadeGood :: "real js"
  timeToGo :: "real js"
  estimatedTimeOfArrival :: "int js"
  previousPoint :: "PreviousPoint js"

record CourseData =
  gc :: CourseResult
  rl :: CourseResult
  res_passedPerpendicular :: "bool js"

text \<open>The object \<open>{}\<close> as a \<open>CourseResult\<close>.\<close>

definition emptyCourseResult :: CourseResult where
  "emptyCourseResult =
     \<lparr> calcMethod = Undefined, bearingTrackTrue = Undefined,
       bearingTrackMagnetic = Undefined, crossTrackError = Undefined,
       distance = Undefined, bearingTrue = Undefined, bearingMagnetic = Undefined,
       velocityMadeGood = Undefined, timeToGo = Undefined,
       estimatedTimeOfArrival = Undefined, previousPoint = Undefined \<rparr>"

section \<open>The course worker\<close>

definition parseSKPaths :: "SKPaths \<Rightarrow> bool" where
  "parseSKPaths src =
     (if navigation_position src \<noteq> None
         \<and> navigation_course_nextPoint_position src \<noteq> None
         \<and> navigation_course_previousPoint_position src \<noteq> None
      then True else False)"

definition toRadians :: "real \<Rightarrow> real" where
  "toRadians v = (v * pi) / 180"

subsection \<open>Velocity made good, time to go\<close>

definition vmg :: "SKPaths \<Rightarrow> real \<Rightarrow> real js" where
  "vmg src bearing =
     (case navigation_headingTrue src of
        None \<Rightarrow> Null
      | Some heading \<Rightarrow>
          (case navigation_speedOverGround src of
             None \<Rightarrow> Null
           | Some sog \<Rightarrow> Val (cos (bearing - heading) * sog)))"

record TimeCalcs =
  ttg :: "real js"
  eta :: "int js"

text \<open>\<open>typeof x === 'number'\<close> and the truth value of a number or \<open>null\<close>.\<close>

fun isNumber :: "real js \<Rightarrow> bool" where
  "isNumber (Val x) = True"
| "isNumber Null = False"
| "isNumber Undefined = False"

fun truthy :: "real js \<Rightarrow> bool" where
  "truthy (Val x) = (x \<noteq> 0)"
| "truthy Null = False"
| "truthy Undefined = False"

text \<open>
  \<open>now\<close> is the reading of the wall clock that \<open>new Date()\<close> takes when the snapshot
  has no datetime.  The arithmetic on the distance and the VMG is reached only when both
  are numbers.
\<close>

definition timeCalcs :: "SKPaths \<Rightarrow> int \<Rightarrow> real js \<Rightarrow> real js \<Rightarrow> TimeCalcs" where
  "timeCalcs src now dst v =
     (if \<not> isNumber dst \<or> \<not> truthy v then \<lparr> ttg = Null, eta = Null \<rparr>
      else
        (case (dst, v) of
           (Val d, Val w) \<Rightarrow>
             (let dateMsec = (case navigation_datetime src of Some t \<Rightarrow> t | None \<Rightarrow> now);
                  ttgMsec = \<lfloor>(d / (w * 0.514444)) * 1000\<rfloor>;
                  etaMsec = dateMsec + ttgMsec
              in \<lparr> ttg = Val (of_int ttgMsec / 1000), eta = Val etaMsec \<rparr>)
         | _ \<Rightarrow> \<lparr> ttg = Null, eta = Null \<rparr>))"

subsection \<open>Passing the perpendicular of the destination\<close>

record Vector =
  vec_x :: real
  vec_y :: real
  vec_length :: real

definition xDiff :: "real \<Rightarrow> real \<Rightarrow> real" where
  "xDiff a b =
     (let bx = (if a > 170 \<and> b < 0 then a + (180 - a) + (180 + b)
                else if a < - 170 \<and> b > 0 then a - (180 + a) - (180 - b)
                else b)
      in bx - a)"

definition toVector :: "LatLon \<Rightarrow> LatLon \<Rightarrow> Vector" where
  "toVector origin end =
     (let dx = xDiff (lon origin) (lon end);
          dy = lat end - lat origin
      in \<lparr> vec_x = dx, vec_y = dy, vec_length = sqrt (dx ^ 2 + dy ^ 2) \<rparr>)"

text \<open>
  When one of the vectors is the zero vector the quotient is \<open>0 / 0\<close>, which is NaN in
  JavaScript, and every comparison with NaN is false.
\<close>

definition passedPerpendicular :: "LatLon \<Rightarrow> LatLon \<Rightarrow> LatLon \<Rightarrow> bool" where
  "passedPerpendicular vesselPosition destination startPoint =
     (let va = toVector destination vesselPosition;
          vb = toVector destination startPoint
      in if vec_length va * vec_length vb = 0 then False
         else
           (let rad = arccos ((vec_x va * vec_x vb + vec_y va * vec_y vb)
                               / (vec_length va * vec_length vb));
                deg = (180 / pi) * rad
            in if deg > 90 then True else False))"

subsection \<open>Course calculations\<close>

definition toLatLon :: "Position \<Rightarrow> LatLon" where
  "toLatLon p = LatLon (latitude p) (longitude p)"

definition newLatLon :: "Position option \<Rightarrow> LatLon option" where
  "newLatLon p = (case p of None \<Rightarrow> None | Some q \<Rightarrow> Some (toLatLon q))"

text \<open>
  \<open>nowGc\<close> and \<open>nowRl\<close> are the readings of the wall clock at the two calls of
  \<open>timeCalcs\<close>.
\<close>

definition calcs :: "GeodesyOps \<Rightarrow> int \<Rightarrow> int \<Rightarrow> SKPaths \<Rightarrow> CourseData" where
  "calcs G nowGc nowRl src =
     (let res = \<lparr> gc = emptyCourseResult, rl = emptyCourseResult,
                  res_passedPerpendicular = Val False \<rparr>
      in case newLatLon (navigation_position src) of
           None \<Rightarrow> res
         | Some vesselPosition \<Rightarrow>
        (case newLatLon (navigation_course_nextPoint_position src) of
           None \<Rightarrow> res
         | Some destination \<Rightarrow>
        (case newLatLon (navigation_course_previousPoint_position src) of
           None \<Rightarrow> res
         | Some startPoint \<Rightarrow>
        (let xte = crossTrackDistanceTo G vesselPosition startPoint destination;
             bearingTrackTrue' = toRadians (initialBearingTo G startPoint destination);
             bearingTrue' = toRadians (initialBearingTo G vesselPosition destination);
             bearingTrackMagnetic' =
               (case navigation_magneticVariation src of
                  None \<Rightarrow> Null
                | Some variation \<Rightarrow> Val (bearingTrackTrue' - variation));
             bearingMagnetic' =
               (case navigation_magneticVariation src of
                  None \<Rightarrow> Null
                | Some variation \<Rightarrow> Val (bearingTrue' - variation));
             gcDistance = distanceTo G vesselPosition destination;
             gcVmg = vmg src bearingTrue';
             gcTime = timeCalcs src nowGc (Val gcDistance) gcVmg;
             resGc =
               \<lparr> calcMethod = Val ''Great Circle'',
                 bearingTrackTrue = Val bearingTrackTrue',
                 bearingTrackMagnetic = bearingTrackMagnetic',
                 crossTrackError = Val xte,
                 distance = Val gcDistance,
                 bearingTrue = Val bearingTrue',
                 bearingMagnetic = bearingMagnetic',
                 velocityMadeGood = gcVmg,
                 timeToGo = ttg gcTime,
                 estimatedTimeOfArrival = eta gcTime,
                 previousPoint = Val \<lparr> previousPoint_distance =
                   Val (distanceTo G vesselPosition startPoint) \<rparr> \<rparr>;
             rlBearingTrackTrue = toRadians (rhumbBearingTo G startPoint destination);
             rlBearingTrue = toRadians (rhumbBearingTo G vesselPosition destination);
             rlBearingTrackMagnetic =
               (case navigation_magneticVariation src of
                  None \<Rightarrow> Null
                | Some variation \<Rightarrow> Val (rlBearingTrackTrue - variation));
             rlBearingMagnetic =
               (case navigation_magneticVariation src of
                  None \<Rightarrow> Null
                | Some variation \<Rightarrow> Val (rlBearingTrue - variation));
             rlDistance = rhumbDistanceTo G vesselPosition destination;
             rlVmg = vmg src rlBearingTrue;
             rlTime = timeCalcs src nowRl (Val rlDistance) rlVmg;
             resRl =
               \<lparr> calcMethod = Val ''Rhumbline'',
                 bearingTrackTrue = Val rlBearingTrackTrue,
                 bearingTrackMagnetic = rlBearingTrackMagnetic,
                 crossTrackError = Val xte,
                 distance = Val rlDistance,
                 bearingTrue = Val rlBearingTrue,
                 bearingMagnetic = rlBearingMagnetic,
                 velocityMadeGood = rlVmg,
                 timeToGo = ttg rlTime,
                 estimatedTimeOfArrival = eta rlTime,
                 previousPoint = Val \<lparr> previousPoint_distance =
                   Val (rhumbDistanceTo G vesselPosition startPoint) \<rparr> \<rparr>
         in \<lparr> gc = resGc, rl = resRl,
              res_passedPerpendicular =
                Val (passedPerpendicular vesselPosition destination startPoint) \<rparr>))))"

subsection \<open>The message handler\<close>




subsection \<open>The message handler with the stale counter\<close>





section \<open>The threshold watcher\<close>

text \<open>
  Modelled from the spec: the class \<open>Watcher\<close> and its \<open>WatchEvent\<close> (\<open>lib/alarms\<close>) are
  not among the sources; only their use in the plugin is.  The state is the current
  membership (initially outside), the two range bounds and the last observed value.
  A value is a member when it lies in \<open>[rangeMin, rangeMax)\<close>.  \<open>observe\<close> emits \<open>enter\<close>
  when a member value arrives while the state is outside, \<open>exit\<close> on the reverse, and
  nothing when the membership is unchanged.
\<close>

datatype WatchEventType = Enter | Exit

record WatchEvent =
  event_type :: WatchEventType
  event_value :: real

text \<open>
  Modelled from the spec: the state of a watcher, which is the range bounds, the current
  membership and the last observed value.
\<close>

record Watcher =
  rangeMin :: real
  rangeMax :: real
  inside :: bool
  lastValue :: "real option"

text \<open>Modelled from the spec: a new watcher is outside and has observed nothing.\<close>

definition newWatcher :: "real \<Rightarrow> real \<Rightarrow> Watcher" where
  "newWatcher lo hi = \<lparr> rangeMin = lo, rangeMax = hi, inside = False, lastValue = None \<rparr>"

text \<open>Modelled from the spec: membership of the range \<open>[rangeMin, rangeMax)\<close>.\<close>

definition isInRange :: "Watcher \<Rightarrow> real \<Rightarrow> bool" where
  "isInRange w v = (rangeMin w \<le> v \<and> v < rangeMax w)"

text \<open>
  Modelled from the spec: the operation \<open>observe\<close>, which returns the event it emits, if
  any, and the new state.
\<close>

definition observe :: "Watcher \<Rightarrow> real \<Rightarrow> WatchEvent option \<times> Watcher" where
  "observe w v =
     (if isInRange w v \<and> \<not> inside w
      then (Some \<lparr> event_type = Enter, event_value = v \<rparr>,
            w \<lparr> inside := True, lastValue := Some v \<rparr>)
      else if \<not> isInRange w v \<and> inside w
      then (Some \<lparr> event_type = Exit, event_value = v \<rparr>,
            w \<lparr> inside := False, lastValue := Some v \<rparr>)
      else (None, w \<lparr> lastValue := Some v \<rparr>))"

text \<open>The outcomes of a sequence of \<open>observe\<close> calls, one for each call.\<close>

fun observeAll :: "Watcher \<Rightarrow> real list \<Rightarrow> WatchEvent option list" where
  "observeAll w [] = []"
| "observeAll w (v # vs) = fst (observe w v) # observeAll (snd (observe w v)) vs"

text \<open>The events among the outcomes of a run, and their strict alternation.\<close>

fun events :: "WatchEvent option list \<Rightarrow> WatchEvent list" where
  "events [] = []"
| "events (None # os) = events os"
| "events (Some e # os) = e # events os"

fun flip :: "WatchEventType \<Rightarrow> WatchEventType" where
  "flip Enter = Exit"
| "flip Exit = Enter"

fun alternating :: "WatchEventType \<Rightarrow> WatchEvent list \<Rightarrow> bool" where
  "alternating k [] = True"
| "alternating k (e # es) = (event_type e = k \<and> alternating (flip k) es)"

text \<open>
  The plugin (\<open>index.ts\<close>) sets the bounds of the passage watcher to 1 and 2 when it
  creates it, before any observation, and \<open>calcResult\<close> feeds it with
  \<open>result.passedPerpendicular ? 1 : 0\<close>.
\<close>

definition watchPassedDest :: Watcher where
  "watchPassedDest = newWatcher 1 2"

definition passedDestValue :: "CourseData \<Rightarrow> real" where
  "passedDestValue result = (if res_passedPerpendicular result = Val True then 1 else 0)"

section \<open>The worker in double arithmetic\<close>

text \<open>
  The definitions above compute in exact arithmetic and give every instant as a result.
  The definitions of this section follow the same source lines with the arithmetic of
  IEEE doubles and with the exception of \<open>toISOString\<close>.  The arithmetic is a
  parameter: \<open>fl\<close> rounds the exact result of an addition, subtraction, multiplication
  or division (and of a numeric literal) to the double the operation returns, \<open>PI\<close> is
  the constant \<open>Math.PI\<close>, and \<open>Math_cos\<close>, \<open>Math_acos\<close>, \<open>Math_sqrt\<close> and \<open>Math_pow2\<close>
  are the library functions on the arguments where they return a number.  A value that
  is NaN or infinite is \<open>None\<close>.
\<close>

record Doubles =
  fl :: "real \<Rightarrow> real"
  PI :: real
  Math_cos :: "real \<Rightarrow> real"
  Math_acos :: "real \<Rightarrow> real"
  Math_sqrt :: "real \<Rightarrow> real"
  Math_pow2 :: "real \<Rightarrow> real"

datatype error = RangeError

definition toRadians_d :: "Doubles \<Rightarrow> real \<Rightarrow> real" where
  "toRadians_d D v = fl D (fl D (v * PI D) / 180)"

definition vmg_d :: "Doubles \<Rightarrow> SKPaths \<Rightarrow> real \<Rightarrow> real js" where
  "vmg_d D src bearing =
     (case navigation_headingTrue src of
        None \<Rightarrow> Null
      | Some heading \<Rightarrow>
          (case navigation_speedOverGround src of
             None \<Rightarrow> Null
           | Some sog \<Rightarrow> Val (fl D (Math_cos D (fl D (bearing - heading)) * sog))))"

text \<open>
  \<open>new Date(t)\<close> holds a time value only when \<open>t\<close> is a number of magnitude at most
  \<open>8.64e15\<close>, and \<open>toISOString\<close> throws a \<open>RangeError\<close> otherwise.  The time value is \<open>t\<close>
  with its fraction cut off.
\<close>

definition toISOString :: "real option \<Rightarrow> error + int" where
  "toISOString t =
     (case t of
        None \<Rightarrow> Inl RangeError
      | Some u \<Rightarrow>
          if \<bar>u\<bar> > 8640000000000000 then Inl RangeError
          else Inr (if 0 \<le> u then \<lfloor>u\<rfloor> else \<lceil>u\<rceil>))"

text \<open>
  A division by zero gives an infinity or NaN, and so do the floor, the product and the
  sum computed from it.
\<close>

definition timeCalcs_d ::
  "Doubles \<Rightarrow> SKPaths \<Rightarrow> int \<Rightarrow> real js \<Rightarrow> real js \<Rightarrow> error + TimeCalcs" where
  "timeCalcs_d D src now dst v =
     (if \<not> isNumber dst \<or> \<not> truthy v then Inr \<lparr> ttg = Null, eta = Null \<rparr>
      else
        (case (dst, v) of
           (Val d, Val w) \<Rightarrow>
             (let dateMsec = (case navigation_datetime src of Some t \<Rightarrow> t | None \<Rightarrow> now);
                  speed = fl D (w * fl D 0.514444);
                  ttgMsec =
                    (if speed = 0 then None
                     else Some (of_int \<lfloor>fl D (fl D (d / speed) * 1000)\<rfloor> :: real));
                  etaMsec =
                    (case ttgMsec of
                       None \<Rightarrow> None
                     | Some t \<Rightarrow> Some (fl D (of_int dateMsec + t)))
              in case toISOString etaMsec of
                   Inl e \<Rightarrow> Inl e
                 | Inr instant \<Rightarrow>
                     (case ttgMsec of
                        None \<Rightarrow> Inl RangeError
                      | Some t \<Rightarrow> Inr \<lparr> ttg = Val (fl D (t / 1000)), eta = Val instant \<rparr>))
         | _ \<Rightarrow> Inr \<lparr> ttg = Null, eta = Null \<rparr>))"

definition xDiff_d :: "Doubles \<Rightarrow> real \<Rightarrow> real \<Rightarrow> real" where
  "xDiff_d D a b =
     (let bx = (if a > 170 \<and> b < 0 then fl D (fl D (a + fl D (180 - a)) + fl D (180 + b))
                else if a < - 170 \<and> b > 0
                then fl D (fl D (a - fl D (180 + a)) - fl D (180 - b))
                else b)
      in fl D (bx - a))"

definition toVector_d :: "Doubles \<Rightarrow> LatLon \<Rightarrow> LatLon \<Rightarrow> Vector" where
  "toVector_d D origin end =
     (let dx = xDiff_d D (lon origin) (lon end);
          dy = fl D (lat end - lat origin)
      in \<lparr> vec_x = dx, vec_y = dy,
           vec_length = Math_sqrt D (fl D (Math_pow2 D dx + Math_pow2 D dy)) \<rparr>)"

text \<open>
  \<open>Math.acos\<close> returns NaN for an argument outside \<open>[-1, 1]\<close>, also for the NaN or the
  infinity of a division by zero, and every comparison with NaN is false.
\<close>

definition passedPerpendicular_d :: "Doubles \<Rightarrow> LatLon \<Rightarrow> LatLon \<Rightarrow> LatLon \<Rightarrow> bool" where
  "passedPerpendicular_d D vesselPosition destination startPoint =
     (let va = toVector_d D destination vesselPosition;
          vb = toVector_d D destination startPoint;
          num = fl D (fl D (vec_x va * vec_x vb) + fl D (vec_y va * vec_y vb));
          den = fl D (vec_length va * vec_length vb)
      in if den = 0 then False
         else
           (let q = fl D (num / den)
            in if q < - 1 \<or> 1 < q then False
               else
                 (let rad = Math_acos D q;
                      deg = fl D (fl D (180 / PI D) * rad)
                  in if deg > 90 then True else False)))"

text \<open>
  \<open>calcs\<close> with the exception: the time of the great-circle branch is computed before
  the rhumbline branch, and an exception of either leaves no result.
\<close>

definition calcs_d ::
  "Doubles \<Rightarrow> GeodesyOps \<Rightarrow> int \<Rightarrow> int \<Rightarrow> SKPaths \<Rightarrow> error + CourseData" where
  "calcs_d D G nowGc nowRl src =
     (let res = \<lparr> gc = emptyCourseResult, rl = emptyCourseResult,
                  res_passedPerpendicular = Val False \<rparr>
      in case newLatLon (navigation_position src) of
           None \<Rightarrow> Inr res
         | Some vesselPosition \<Rightarrow>
        (case newLatLon (navigation_course_nextPoint_position src) of
           None \<Rightarrow> Inr res
         | Some destination \<Rightarrow>
        (case newLatLon (navigation_course_previousPoint_position src) of
           None \<Rightarrow> Inr res
         | Some startPoint \<Rightarrow>
        (let xte = crossTrackDistanceTo G vesselPosition startPoint destination;
             bearingTrackTrue' = toRadians_d D (initialBearingTo G startPoint destination);
             bearingTrue' = toRadians_d D (initialBearingTo G vesselPosition destination);
             bearingTrackMagnetic' =
               (case navigation_magneticVariation src of
                  None \<Rightarrow> Null
                | Some variation \<Rightarrow> Val (fl D (bearingTrackTrue' - variation)));
             bearingMagnetic' =
               (case navigation_magneticVariation src of
                  None \<Rightarrow> Null
                | Some variation \<Rightarrow> Val (fl D (bearingTrue' - variation)));
             gcDistance = distanceTo G vesselPosition destination;
             gcVmg = vmg_d D src bearingTrue'
         in case timeCalcs_d D src nowGc (Val gcDistance) gcVmg of
              Inl e \<Rightarrow> Inl e
            | Inr gcTime \<Rightarrow>
        (let resGc =
               \<lparr> calcMethod = Val ''Great Circle'',
                 bearingTrackTrue = Val bearingTrackTrue',
                 bearingTrackMagnetic = bearingTrackMagnetic',
                 crossTrackError = Val xte,
                 distance = Val gcDistance,
                 bearingTrue = Val bearingTrue',
                 bearingMagnetic = bearingMagnetic',
                 velocityMadeGood = gcVmg,
                 timeToGo = ttg gcTime,
                 estimatedTimeOfArrival = eta gcTime,
                 previousPoint = Val \<lparr> previousPoint_distance =
                   Val (distanceTo G vesselPosition startPoint) \<rparr> \<rparr>;
             rlBearingTrackTrue = toRadians_d D (rhumbBearingTo G startPoint destination);
             rlBearingTrue = toRadians_d D (rhumbBearingTo G vesselPosition destination);
             rlBearingTrackMagnetic =
               (case navigation_magneticVariation src of
                  None \<Rightarrow> Null
                | Some variation \<Rightarrow> Val (fl D (rlBearingTrackTrue - variation)));
             rlBearingMagnetic =
               (case navigation_magneticVariation src of
                  None \<Rightarrow> Null
                | Some variation \<Rightarrow> Val (fl D (rlBearingTrue - variation)));
             rlDistance = rhumbDistanceTo G vesselPosition destination;
             rlVmg = vmg_d D src rlBearingTrue
         in case timeCalcs_d D src nowRl (Val rlDistance) rlVmg of
              Inl e \<Rightarrow> Inl e
            | Inr rlTime \<Rightarrow>
              Inr \<lparr> gc = resGc,
                    rl = \<lparr> calcMethod = Val ''Rhumbline'',
                           bearingTrackTrue = Val rlBearingTrackTrue,
                           bearingTrackMagnetic = rlBearingTrackMagnetic,
                           crossTrackError = Val xte,
                           distance = Val rlDistance,
                           bearingTrue = Val rlBearingTrue,
                           bearingMagnetic = rlBearingMagnetic,
                           velocityMadeGood = rlVmg,
                           timeToGo = ttg rlTime,
                           estimatedTimeOfArrival = eta rlTime,
                           previousPoint = Val \<lparr> previousPoint_distance =
                             Val (rhumbDistanceTo G vesselPosition startPoint) \<rparr> \<rparr>,
                    res_passedPerpendicular =
                      Val (passedPerpendicular_d D vesselPosition destination
                             startPoint) \<rparr>)))))"

text \<open>The exact arithmetic as an instance, for which the two models agree.\<close>

definition exactArithmetic :: Doubles where
  "exactArithmetic =
     \<lparr> fl = (\<lambda>r. r), PI = pi, Math_cos = cos, Math_acos = arccos,
       Math_sqrt = sqrt, Math_pow2 = (\<lambda>r. r ^ 2) \<rparr>"

section \<open>Sample inputs\<close>

text \<open>
  A stand-in for the geodesy operations with values that are easy to compute: the
  great-circle bearings are 0 degrees, the rhumbline bearings are 180 degrees.
\<close>

definition sampleGeodesy :: GeodesyOps where
  "sampleGeodesy =
     \<lparr> crossTrackDistanceTo = (\<lambda>p s e. lat p - lat s),
       initialBearingTo = (\<lambda>p q. 0),
       distanceTo = (\<lambda>p q. \<bar>lat q - lat p\<bar> + \<bar>lon q - lon p\<bar>),
       rhumbBearingTo = (\<lambda>p q. 180),
       rhumbDistanceTo = (\<lambda>p q. 2 * (\<bar>lat q - lat p\<bar> + \<bar>lon q - lon p\<bar>)) \<rparr>"

text \<open>A snapshot with every path absent, and a sample position.\<close>

definition noPaths :: SKPaths where
  "noPaths =
     \<lparr> navigation_position = None,
       navigation_course_nextPoint_position = None,
       navigation_course_previousPoint_position = None,
       navigation_magneticVariation = None,
       navigation_headingTrue = None,
       navigation_speedOverGround = None,
       navigation_datetime = None \<rparr>"

definition pos :: "real \<Rightarrow> real \<Rightarrow> Position" where
  "pos la lo = \<lparr> latitude = la, longitude = lo \<rparr>"

text \<open>
  A valid snapshot with every path present: the start point (0, 0), the destination
  (0, 10) and the vessel at (0, 15); and the same snapshot without its datetime.
\<close>

definition sampleSnapshot :: SKPaths where
  "sampleSnapshot =
     \<lparr> navigation_position = Some (pos 0 15),
       navigation_course_nextPoint_position = Some (pos 0 10),
       navigation_course_previousPoint_position = Some (pos 0 0),
       navigation_magneticVariation = Some (1 / 10),
       navigation_headingTrue = Some 0,
       navigation_speedOverGround = Some 2,
       navigation_datetime = Some 1000000 \<rparr>"


section \<open>The result of a valid snapshot\<close>




lemma parseSKPaths_iff:
  "parseSKPaths src \<longleftrightarrow>
     (\<exists>vp np pp. navigation_position src = Some vp
        \<and> navigation_course_nextPoint_position src = Some np
        \<and> navigation_course_previousPoint_position src = Some pp)"
  by (auto simp: parseSKPaths_def)

lemma sampleSnapshot_fields:
  "navigation_position sampleSnapshot = Some (pos 0 15)"
  "navigation_course_nextPoint_position sampleSnapshot = Some (pos 0 10)"
  "navigation_course_previousPoint_position sampleSnapshot = Some (pos 0 0)"
  "navigation_magneticVariation sampleSnapshot = Some (1 / 10)"
  "navigation_headingTrue sampleSnapshot = Some 0"
  "navigation_speedOverGround sampleSnapshot = Some 2"
  "navigation_datetime sampleSnapshot = Some 1000000"
  by (simp_all add: sampleSnapshot_def)


lemma calcs_invalid:
  assumes "\<not> parseSKPaths src"
  shows "calcs G nowGc nowRl src =
           \<lparr> gc = emptyCourseResult, rl = emptyCourseResult,
             res_passedPerpendicular = Val False \<rparr>"
proof -
  from assms have "navigation_position src = None
      \<or> navigation_course_nextPoint_position src = None
      \<or> navigation_course_previousPoint_position src = None"
    by (auto simp: parseSKPaths_def split: if_splits)
  then show ?thesis
    by (elim disjE) (simp_all add: calcs_def newLatLon_def split: option.split)
qed

section \<open>Missing input\<close>

text \<open>
  C1.  Whenever the vessel position, the next point or the previous point is absent
  from the snapshot, \<open>parseSKPaths\<close> rejects it and \<open>calcs\<close> returns exactly the empty
  result: both the great-circle and the rhumbline branch are the object \<open>{}\<close> and the
  passage flag is \<open>false\<close>.  Nothing of the result is filled in, whatever the other
  paths, the clock and the geodesy operations are.
\<close>

theorem calcs_missing_input_empty:
  assumes "navigation_position src = None
         \<or> navigation_course_nextPoint_position src = None
         \<or> navigation_course_previousPoint_position src = None"
  shows "calcs G nowGc nowRl src =
           \<lparr> gc = emptyCourseResult, rl = emptyCourseResult,
             res_passedPerpendicular = Val False \<rparr>
         \<and> parseSKPaths src = False"
proof
  show "calcs G nowGc nowRl src =
           \<lparr> gc = emptyCourseResult, rl = emptyCourseResult,
             res_passedPerpendicular = Val False \<rparr>"
    using assms
    by (elim disjE) (simp_all add: calcs_def newLatLon_def split: option.split)
  show "parseSKPaths src = False"
    using assms by (elim disjE) (simp_all add: parseSKPaths_def)
qed

theorem calcs_missing_input_empty_witness:
  "navigation_course_previousPoint_position
     (noPaths \<lparr> navigation_position := Some (pos 1 2),
               navigation_course_nextPoint_position := Some (pos 3 4) \<rparr>) = None
   \<and> calcs sampleGeodesy 0 0
     (noPaths \<lparr> navigation_position := Some (pos 1 2),
               navigation_course_nextPoint_position := Some (pos 3 4) \<rparr>) =
     \<lparr> gc = emptyCourseResult, rl = emptyCourseResult,
       res_passedPerpendicular = Val False \<rparr>"
  using calcs_missing_input_empty
    [of "noPaths \<lparr> navigation_position := Some (pos 1 2),
                   navigation_course_nextPoint_position := Some (pos 3 4) \<rparr>"
        sampleGeodesy 0 0]
  by (simp add: noPaths_def)

section \<open>Cross-track error\<close>



section \<open>Velocity made good\<close>



section \<open>Magnetic bearings\<close>



section \<open>The passage flag\<close>

text \<open>
  The quotient of the dot product and the product of the lengths lies between \<open>-1\<close> and
  \<open>1\<close>, so the angle exceeds a right angle exactly when the dot product is negative.
\<close>

lemma cauchy_schwarz_2d:
  fixes a b c d :: real
  shows "\<bar>a * c + b * d\<bar> \<le> sqrt (a\<^sup>2 + b\<^sup>2) * sqrt (c\<^sup>2 + d\<^sup>2)"
proof -
  have "(a\<^sup>2 + b\<^sup>2) * (c\<^sup>2 + d\<^sup>2) - (a * c + b * d)\<^sup>2 = (a * d - b * c)\<^sup>2"
    by (simp add: power2_eq_square algebra_simps)
  moreover have "0 \<le> (a * d - b * c)\<^sup>2"
    by simp
  ultimately have "(a * c + b * d)\<^sup>2 \<le> (a\<^sup>2 + b\<^sup>2) * (c\<^sup>2 + d\<^sup>2)"
    by linarith
  then have "sqrt ((a * c + b * d)\<^sup>2) \<le> sqrt ((a\<^sup>2 + b\<^sup>2) * (c\<^sup>2 + d\<^sup>2))"
    by (rule real_sqrt_le_mono)
  then show ?thesis
    by (simp add: real_sqrt_mult)
qed






section \<open>Dependence on the clock\<close>









section \<open>Stale input\<close>












section \<open>Watcher events\<close>

lemma observe_range:
  "isInRange (snd (observe w v)) u = isInRange w u"
  by (simp add: observe_def isInRange_def)

lemma observe_inside:
  "inside (snd (observe w v)) = isInRange w v"
  by (auto simp: observe_def)

lemma observe_event:
  "fst (observe w v) =
     (if isInRange w v = inside w then None
      else Some \<lparr> event_type = (if isInRange w v then Enter else Exit), event_value = v \<rparr>)"
  by (auto simp: observe_def)

lemma observeAll_nth:
  assumes "i < length vs"
  shows "observeAll w vs ! i =
     (if isInRange w (vs ! i) = (if i = 0 then inside w else isInRange w (vs ! (i - 1)))
      then None
      else Some \<lparr> event_type = (if isInRange w (vs ! i) then Enter else Exit),
                  event_value = vs ! i \<rparr>)"
  using assms
proof (induction vs arbitrary: w i)
  case Nil
  then show ?case by simp
next
  case (Cons v vs)
  show ?case
  proof (cases i)
    case 0
    then show ?thesis by (simp add: observe_event)
  next
    case (Suc j)
    with Cons.prems have j: "j < length vs" by simp
    show ?thesis
    proof (cases j)
      case 0
      with Suc show ?thesis
        using Cons.IH [OF j, of "snd (observe w v)"]
        by (simp add: observe_range observe_inside)
    next
      case (Suc k)
      with \<open>i = Suc j\<close> show ?thesis
        using Cons.IH [OF j, of "snd (observe w v)"]
        by (simp add: observe_range)
    qed
  qed
qed

lemma observeAll_alternating:
  "alternating (if inside w then Exit else Enter) (events (observeAll w vs))"
proof (induction vs arbitrary: w)
  case Nil
  then show ?case by simp
next
  case (Cons v vs)
  show ?case
  proof (cases "isInRange w v = inside w")
    case True
    then have "inside (snd (observe w v)) = inside w"
      by (simp add: observe_inside)
    with True Cons.IH [of "snd (observe w v)"] show ?thesis
      by (simp add: observe_event)
  next
    case False
    then have "inside (snd (observe w v)) = (\<not> inside w)"
      by (auto simp: observe_inside)
    with False Cons.IH [of "snd (observe w v)"] show ?thesis
      by (auto simp: observe_event)
  qed
qed

lemma observeAll_inside_quiet:
  assumes "inside w" and "\<forall>v \<in> set vs. isInRange w v"
  shows "observeAll w vs = replicate (length vs) None"
  using assms
proof (induction vs arbitrary: w)
  case Nil
  then show ?case by simp
next
  case (Cons v vs)
  from Cons.prems have "isInRange w v" by simp
  with Cons.prems have "fst (observe w v) = None" and "inside (snd (observe w v))"
    by (simp_all add: observe_event observe_inside)
  moreover from Cons.prems have "\<forall>u \<in> set vs. isInRange (snd (observe w v)) u"
    by (simp add: observe_range)
  ultimately show ?case
    using Cons.IH [of "snd (observe w v)"] by simp
qed

lemma observeAll_outside_quiet:
  assumes "\<not> inside w" and "\<forall>v \<in> set vs. \<not> isInRange w v"
  shows "observeAll w vs = replicate (length vs) None"
  using assms
proof (induction vs arbitrary: w)
  case Nil
  then show ?case by simp
next
  case (Cons v vs)
  from Cons.prems have "\<not> isInRange w v" by simp
  with Cons.prems have "fst (observe w v) = None" and "\<not> inside (snd (observe w v))"
    by (simp_all add: observe_event observe_inside)
  moreover from Cons.prems have "\<forall>u \<in> set vs. \<not> isInRange (snd (observe w v)) u"
    by (simp add: observe_range)
  ultimately show ?case
    using Cons.IH [of "snd (observe w v)"] by simp
qed

lemma observeAll_cross_out:
  assumes "inside w" and "\<forall>v \<in> set ins. isInRange w v"
    and "\<not> isInRange w out" and "\<forall>v \<in> set outs. \<not> isInRange w v"
  shows "observeAll w (ins @ out # outs) =
           replicate (length ins) None
             @ Some \<lparr> event_type = Exit, event_value = out \<rparr>
             # replicate (length outs) None"
  using assms
proof (induction ins arbitrary: w)
  case Nil
  then have "fst (observe w out) = Some \<lparr> event_type = Exit, event_value = out \<rparr>"
    and "\<not> inside (snd (observe w out))"
    by (simp_all add: observe_event observe_inside)
  moreover from Nil have "\<forall>u \<in> set outs. \<not> isInRange (snd (observe w out)) u"
    by (simp add: observe_range)
  ultimately show ?case
    by (simp add: observeAll_outside_quiet)
next
  case (Cons v ins)
  from Cons.prems have "isInRange w v" by simp
  with Cons.prems have "fst (observe w v) = None" and "inside (snd (observe w v))"
    by (simp_all add: observe_event observe_inside)
  moreover from Cons.prems have "\<forall>u \<in> set ins. isInRange (snd (observe w v)) u"
    and "\<not> isInRange (snd (observe w v)) out"
    and "\<forall>u \<in> set outs. \<not> isInRange (snd (observe w v)) u"
    by (simp_all add: observe_range)
  ultimately show ?case
    using Cons.IH [of "snd (observe w v)"] by simp
qed

lemma passedDest_membership:
  "isInRange watchPassedDest (passedDestValue r) \<longleftrightarrow> res_passedPerpendicular r = Val True"
  by (simp add: isInRange_def watchPassedDest_def newWatcher_def passedDestValue_def)

text \<open>
  C9.  In every sequence of \<open>observe\<close> calls an event is emitted exactly at the calls
  whose value differs in membership of \<open>[rangeMin, rangeMax)\<close> from the value before it
  (for the first call: from the state of the watcher): \<open>enter\<close> when the value is a
  member, \<open>exit\<close> when it is not, with the value observed; a call that does not change
  the membership emits nothing.  The events of a run alternate strictly, beginning with
  \<open>enter\<close> when the watcher starts outside.  While the watcher is inside, values that
  stay in the range produce no event; the first value out of the range produces one
  \<open>exit\<close>, and the values out of the range that follow it produce none.  The passage
  watcher has the range \<open>[1, 2)\<close>, and the value the plugin feeds it is a member exactly
  when the passage flag is true.
\<close>

theorem watcher_transitions:
  assumes "i < length vs"
    and "inside w'" and "\<forall>v \<in> set ins. isInRange w' v"
    and "\<not> isInRange w' out" and "\<forall>v \<in> set outs. \<not> isInRange w' v"
  shows "observeAll w vs ! i =
           (if isInRange w (vs ! i) = (if i = 0 then inside w else isInRange w (vs ! (i - 1)))
            then None
            else Some \<lparr> event_type = (if isInRange w (vs ! i) then Enter else Exit),
                        event_value = vs ! i \<rparr>)
       \<and> alternating (if inside w then Exit else Enter) (events (observeAll w vs))
       \<and> observeAll w' (ins @ out # outs) =
           replicate (length ins) None
             @ Some \<lparr> event_type = Exit, event_value = out \<rparr>
             # replicate (length outs) None
       \<and> (isInRange watchPassedDest (passedDestValue r) \<longleftrightarrow>
            res_passedPerpendicular r = Val True)
       \<and> inside watchPassedDest = False"
proof -
  have start: "inside watchPassedDest = False"
    by (simp add: watchPassedDest_def newWatcher_def)
  from observeAll_nth [OF assms(1)] observeAll_alternating
    observeAll_cross_out [OF assms(2-5)] passedDest_membership start
  show ?thesis by (intro conjI)
qed

theorem watcher_transitions_witness:
  "(3 :: nat) < length [0, 1, 1, 0, 1 :: real]
   \<and> inside (snd (observe watchPassedDest 1))
   \<and> isInRange (snd (observe watchPassedDest 1)) 1
   \<and> \<not> isInRange (snd (observe watchPassedDest 1)) 0
   \<and> observeAll watchPassedDest [0, 1, 1, 0, 1] ! 3
        = Some \<lparr> event_type = Exit, event_value = 0 \<rparr>
   \<and> observeAll (snd (observe watchPassedDest 1)) [1, 1, 0, 0, 0]
        = [None, None, Some \<lparr> event_type = Exit, event_value = 0 \<rparr>, None, None]"
proof -
  have r: "isInRange watchPassedDest v \<longleftrightarrow> 1 \<le> v \<and> v < 2" for v
    by (simp add: isInRange_def watchPassedDest_def newWatcher_def)
  have l: "(3 :: nat) < length [0, 1, 1, 0, 1 :: real]"
    by simp
  have i: "inside (snd (observe watchPassedDest 1))"
    by (simp add: observe_inside r)
  have ins: "\<forall>v \<in> set [1, 1]. isInRange (snd (observe watchPassedDest 1)) v"
    by (simp add: observe_range r)
  have out: "\<not> isInRange (snd (observe watchPassedDest 1)) 0"
    by (simp add: observe_range r)
  have outs: "\<forall>v \<in> set [0, 0]. \<not> isInRange (snd (observe watchPassedDest 1)) v"
    by (simp add: observe_range r)
  show ?thesis
    using watcher_transitions [OF l i ins out outs, of watchPassedDest] l i ins out outs
    by (simp add: r)
qed

section \<open>Results in double arithmetic\<close>

lemma TimeCalcs_eta_expand:
  "\<lparr> ttg = ttg r, eta = eta r \<rparr> = (r :: TimeCalcs)"
  by simp

lemma calcs_d_valid:
  assumes "navigation_position src = Some vp"
    and "navigation_course_nextPoint_position src = Some np"
    and "navigation_course_previousPoint_position src = Some pp"
    and "calcs_d D G nowGc nowRl src = Inr res"
  shows "timeCalcs_d D src nowGc (distance (gc res)) (velocityMadeGood (gc res)) =
           Inr \<lparr> ttg = timeToGo (gc res), eta = estimatedTimeOfArrival (gc res) \<rparr>"
    and "timeCalcs_d D src nowRl (distance (rl res)) (velocityMadeGood (rl res)) =
           Inr \<lparr> ttg = timeToGo (rl res), eta = estimatedTimeOfArrival (rl res) \<rparr>"
    and "res_passedPerpendicular res =
           Val (passedPerpendicular_d D (toLatLon vp) (toLatLon np) (toLatLon pp))"
    and "distance (gc res) = Val (distanceTo G (toLatLon vp) (toLatLon np))"
    and "distance (rl res) = Val (rhumbDistanceTo G (toLatLon vp) (toLatLon np))"
proof -
  let ?gt = "timeCalcs_d D src nowGc (Val (distanceTo G (toLatLon vp) (toLatLon np)))
      (vmg_d D src (toRadians_d D (initialBearingTo G (toLatLon vp) (toLatLon np))))"
  let ?rt = "timeCalcs_d D src nowRl (Val (rhumbDistanceTo G (toLatLon vp) (toLatLon np)))
      (vmg_d D src (toRadians_d D (rhumbBearingTo G (toLatLon vp) (toLatLon np))))"
  from assms obtain g where g: "?gt = Inr g"
    by (cases ?gt) (simp_all add: calcs_d_def newLatLon_def Let_def)
  from assms g obtain r where r: "?rt = Inr r"
    by (cases ?rt) (simp_all add: calcs_d_def newLatLon_def Let_def)
  from assms(4) have res: "res = projr (calcs_d D G nowGc nowRl src)"
    by simp
  have fields:
    "distance (gc res) = Val (distanceTo G (toLatLon vp) (toLatLon np))"
    "velocityMadeGood (gc res) =
       vmg_d D src (toRadians_d D (initialBearingTo G (toLatLon vp) (toLatLon np)))"
    "timeToGo (gc res) = ttg g" "estimatedTimeOfArrival (gc res) = eta g"
    "distance (rl res) = Val (rhumbDistanceTo G (toLatLon vp) (toLatLon np))"
    "velocityMadeGood (rl res) =
       vmg_d D src (toRadians_d D (rhumbBearingTo G (toLatLon vp) (toLatLon np)))"
    "timeToGo (rl res) = ttg r" "estimatedTimeOfArrival (rl res) = eta r"
    "res_passedPerpendicular res =
           Val (passedPerpendicular_d D (toLatLon vp) (toLatLon np) (toLatLon pp))"
    unfolding res using assms(1-3) g r
    by (simp_all add: calcs_d_def newLatLon_def Let_def)
  show "timeCalcs_d D src nowGc (distance (gc res)) (velocityMadeGood (gc res)) =
           Inr \<lparr> ttg = timeToGo (gc res), eta = estimatedTimeOfArrival (gc res) \<rparr>"
    by (simp add: fields g)
  show "timeCalcs_d D src nowRl (distance (rl res)) (velocityMadeGood (rl res)) =
           Inr \<lparr> ttg = timeToGo (rl res), eta = estimatedTimeOfArrival (rl res) \<rparr>"
    by (simp add: fields r)
  show "res_passedPerpendicular res =
           Val (passedPerpendicular_d D (toLatLon vp) (toLatLon np) (toLatLon pp))"
    by (rule fields)
  show "distance (gc res) = Val (distanceTo G (toLatLon vp) (toLatLon np))"
    and "distance (rl res) = Val (rhumbDistanceTo G (toLatLon vp) (toLatLon np))"
    by (rule fields)+
qed

text \<open>In exact arithmetic the two models of the passage flag agree.\<close>

lemma quotient_in_range:
  fixes a b c d :: real
  assumes "sqrt (a\<^sup>2 + b\<^sup>2) * sqrt (c\<^sup>2 + d\<^sup>2) \<noteq> 0"
  shows "- 1 \<le> (a * c + b * d) / (sqrt (a\<^sup>2 + b\<^sup>2) * sqrt (c\<^sup>2 + d\<^sup>2))
       \<and> (a * c + b * d) / (sqrt (a\<^sup>2 + b\<^sup>2) * sqrt (c\<^sup>2 + d\<^sup>2)) \<le> 1"
proof -
  let ?n = "sqrt (a\<^sup>2 + b\<^sup>2) * sqrt (c\<^sup>2 + d\<^sup>2)"
  have "0 \<le> ?n" by simp
  with assms have pos: "0 < ?n" by linarith
  have "\<bar>(a * c + b * d) / ?n\<bar> = \<bar>a * c + b * d\<bar> / ?n"
    using pos by (simp add: abs_mult)
  also have "\<dots> \<le> 1"
    using pos cauchy_schwarz_2d [of a c b d] by (simp add: field_simps)
  finally show ?thesis by linarith
qed

lemma exact_sel:
  "fl exactArithmetic = (\<lambda>r. r)" "PI exactArithmetic = pi"
  "Math_cos exactArithmetic = cos" "Math_acos exactArithmetic = arccos"
  "Math_sqrt exactArithmetic = sqrt" "Math_pow2 exactArithmetic = (\<lambda>r. r ^ 2)"
  by (simp_all add: exactArithmetic_def)

lemma xDiff_d_exact:
  "xDiff_d exactArithmetic a b = xDiff a b"
  by (simp add: xDiff_d_def xDiff_def exactArithmetic_def)

lemma toVector_d_exact:
  "toVector_d exactArithmetic p q = toVector p q"
  by (simp add: toVector_d_def toVector_def xDiff_d_exact Let_def)
     (simp add: exactArithmetic_def)

lemma passedPerpendicular_d_exact:
  "passedPerpendicular_d exactArithmetic v d s = passedPerpendicular v d s"
proof (cases "vec_length (toVector d v) * vec_length (toVector d s) = 0")
  case True
  then show ?thesis
    by (simp add: passedPerpendicular_d_def passedPerpendicular_def toVector_d_exact Let_def)
       (simp add: exactArithmetic_def)
next
  case False
  then have nz: "sqrt ((xDiff (lon d) (lon v))\<^sup>2 + (lat v - lat d)\<^sup>2)
        * sqrt ((xDiff (lon d) (lon s))\<^sup>2 + (lat s - lat d)\<^sup>2) \<noteq> 0"
    by (simp add: toVector_def Let_def)
  note rng = quotient_in_range [OF nz]
  have sel: "fl exactArithmetic = (\<lambda>r. r)" "PI exactArithmetic = pi"
    "Math_acos exactArithmetic = arccos"
    by (simp_all add: exactArithmetic_def)
  show ?thesis
    using False rng
    by (simp add: passedPerpendicular_d_def passedPerpendicular_def toVector_d_exact
          Let_def sel toVector_def)
qed


lemma toRadians_d_exact:
  "toRadians_d exactArithmetic v = toRadians v"
  by (simp add: toRadians_d_def toRadians_def exactArithmetic_def)

lemma vmg_d_exact:
  "vmg_d exactArithmetic src b = vmg src b"
  by (simp add: vmg_d_def vmg_def exact_sel split: option.split)

lemma timeCalcs_d_exact_agree:
  assumes "timeCalcs_d exactArithmetic src now dst v = Inr r"
  shows "r = timeCalcs src now dst v"
proof (cases "\<not> isNumber dst \<or> \<not> truthy v")
  case True
  with assms show ?thesis
    by (auto simp: timeCalcs_d_def timeCalcs_def)
next
  case False
  then obtain d w where dw: "dst = Val d" "v = Val w" "w \<noteq> 0"
    by (cases dst; cases v) auto
  have sel: "fl exactArithmetic = (\<lambda>r. r)"
    by (simp add: exactArithmetic_def)
  have sum: "real_of_int i + real_of_int j = real_of_int (i + j)" for i j
    by simp
  from assms show ?thesis
    unfolding dw timeCalcs_d_def timeCalcs_def sel sum toISOString_def Let_def
    using dw(3) by (simp split: if_splits)
qed

lemma calcs_d_exact:
  assumes "calcs_d exactArithmetic G nowGc nowRl src = Inr res"
  shows "res = calcs G nowGc nowRl src"
proof (cases "parseSKPaths src")
  case False
  then have "navigation_position src = None
      \<or> navigation_course_nextPoint_position src = None
      \<or> navigation_course_previousPoint_position src = None"
    by (auto simp: parseSKPaths_def split: if_splits)
  then have "calcs_d exactArithmetic G nowGc nowRl src =
      Inr \<lparr> gc = emptyCourseResult, rl = emptyCourseResult,
            res_passedPerpendicular = Val False \<rparr>"
    by (elim disjE) (simp_all add: calcs_d_def newLatLon_def split: option.split)
  with assms False show ?thesis
    by (simp add: calcs_invalid)
next
  case True
  then obtain vp np pp where valid:
    "navigation_position src = Some vp"
    "navigation_course_nextPoint_position src = Some np"
    "navigation_course_previousPoint_position src = Some pp"
    by (auto simp: parseSKPaths_iff)
  let ?gt = "timeCalcs_d exactArithmetic src nowGc
      (Val (distanceTo G (toLatLon vp) (toLatLon np)))
      (vmg src (toRadians (initialBearingTo G (toLatLon vp) (toLatLon np))))"
  let ?rt = "timeCalcs_d exactArithmetic src nowRl
      (Val (rhumbDistanceTo G (toLatLon vp) (toLatLon np)))
      (vmg src (toRadians (rhumbBearingTo G (toLatLon vp) (toLatLon np))))"
  from assms valid obtain g where g: "?gt = Inr g"
    by (cases ?gt)
       (simp_all add: calcs_d_def newLatLon_def Let_def toRadians_d_exact vmg_d_exact)
  from assms valid g obtain r where r: "?rt = Inr r"
    by (cases ?rt)
       (simp_all add: calcs_d_def newLatLon_def Let_def toRadians_d_exact vmg_d_exact)
  note g' = timeCalcs_d_exact_agree [OF g] and r' = timeCalcs_d_exact_agree [OF r]
  have sel: "fl exactArithmetic = (\<lambda>r. r)"
    by (simp add: exactArithmetic_def)
  from assms have "res = projr (calcs_d exactArithmetic G nowGc nowRl src)"
    by simp
  also have "\<dots> = calcs G nowGc nowRl src"
    using valid g r
    by (simp add: calcs_d_def calcs_def newLatLon_def Let_def toRadians_d_exact
          vmg_d_exact passedPerpendicular_d_exact sel g' r' split: option.split)
  finally show ?thesis .
qed

lemma floor_ms_bounds:
  fixes q :: real
  shows "q - 1 / 1000 < of_int \<lfloor>q * 1000\<rfloor> / 1000 \<and> of_int \<lfloor>q * 1000\<rfloor> / 1000 \<le> q"
proof -
  have "of_int \<lfloor>q * 1000\<rfloor> \<le> q * 1000" and "q * 1000 - 1 < of_int \<lfloor>q * 1000\<rfloor>"
    by linarith+
  then show ?thesis by (simp add: field_simps)
qed

lemma timeCalcs_d_null_iff:
  "timeCalcs_d D src now dst v = Inr \<lparr> ttg = Null, eta = Null \<rparr>
     \<longleftrightarrow> \<not> isNumber dst \<or> \<not> truthy v"
  by (cases dst; cases v)
     (simp_all add: timeCalcs_d_def toISOString_def Let_def split: option.split)

lemma timeCalcs_d_numbers:
  assumes "w \<noteq> 0"
  shows "timeCalcs_d D src now (Val d) (Val w) =
     (if fl D (w * fl D 0.514444) = 0
         \<or> 8640000000000000 <
           \<bar>fl D (of_int (case navigation_datetime src of Some t \<Rightarrow> t | None \<Rightarrow> now)
              + of_int \<lfloor>fl D (fl D (d / fl D (w * fl D 0.514444)) * 1000)\<rfloor>)\<bar>
      then Inl RangeError
      else Inr \<lparr> ttg = Val (fl D
                    (of_int \<lfloor>fl D (fl D (d / fl D (w * fl D 0.514444)) * 1000)\<rfloor> / 1000)),
                 eta = Val
                   (if 0 \<le> fl D
                      (of_int (case navigation_datetime src of Some t \<Rightarrow> t | None \<Rightarrow> now)
                       + of_int \<lfloor>fl D (fl D (d / fl D (w * fl D 0.514444)) * 1000)\<rfloor>)
                    then \<lfloor>fl D
                      (of_int (case navigation_datetime src of Some t \<Rightarrow> t | None \<Rightarrow> now)
                       + of_int \<lfloor>fl D (fl D (d / fl D (w * fl D 0.514444)) * 1000)\<rfloor>)\<rfloor>
                    else \<lceil>fl D
                      (of_int (case navigation_datetime src of Some t \<Rightarrow> t | None \<Rightarrow> now)
                       + of_int \<lfloor>fl D (fl D (d / fl D (w * fl D 0.514444)) * 1000)\<rfloor>)\<rceil>) \<rparr>)"
  using assms by (simp add: timeCalcs_d_def toISOString_def Let_def)

lemma timeCalcs_d_exact:
  assumes "w \<noteq> 0"
    and "\<bar>(case navigation_datetime src of Some t \<Rightarrow> t | None \<Rightarrow> now)
           + \<lfloor>(d / (w * 0.514444)) * 1000\<rfloor>\<bar> \<le> 8640000000000000"
  shows "timeCalcs_d exactArithmetic src now (Val d) (Val w) =
     Inr \<lparr> ttg = Val (of_int \<lfloor>(d / (w * 0.514444)) * 1000\<rfloor> / 1000),
           eta = Val ((case navigation_datetime src of Some t \<Rightarrow> t | None \<Rightarrow> now)
                   + \<lfloor>(d / (w * 0.514444)) * 1000\<rfloor>) \<rparr>"
proof -
  let ?e = "(case navigation_datetime src of Some t \<Rightarrow> t | None \<Rightarrow> now)
           + \<lfloor>(d / (w * 0.514444)) * 1000\<rfloor>"
  have sum: "real_of_int (case navigation_datetime src of Some t \<Rightarrow> t | None \<Rightarrow> now)
      + real_of_int \<lfloor>(d / (w * 0.514444)) * 1000\<rfloor> = real_of_int ?e"
    by simp
  from assms(2) have "\<bar>real_of_int ?e\<bar> \<le> 8640000000000000"
    by linarith
  then have range: "\<not> 8640000000000000 < \<bar>real_of_int ?e\<bar>"
    by simp
  have sel: "fl exactArithmetic = (\<lambda>r. r)"
    by (simp add: exactArithmetic_def)
  show ?thesis
    using \<open>w \<noteq> 0\<close> range
    unfolding timeCalcs_d_numbers [OF \<open>w \<noteq> 0\<close>] sel sum
    by simp
qed


lemma sample_timeCalcs_d:
  "timeCalcs_d exactArithmetic sampleSnapshot 7 (Val 5) (Val 2) =
     Inr \<lparr> ttg = Val (4859 / 1000), eta = Val 1004859 \<rparr>"
  "timeCalcs_d exactArithmetic sampleSnapshot 8 (Val 10) (Val (- 2)) =
     Inr \<lparr> ttg = Val (- 9720 / 1000), eta = Val 990280 \<rparr>"
proof -
  have f: "\<lfloor>(5 / (2 * 0.514444)) * (1000 :: real)\<rfloor> = 4859"
    "\<lfloor>(10 / (- 2 * 0.514444)) * (1000 :: real)\<rfloor> = - 9720"
    by (simp_all add: floor_eq_iff)
  have w: "(2 :: real) \<noteq> 0" "(- 2 :: real) \<noteq> 0"
    by simp_all
  show "timeCalcs_d exactArithmetic sampleSnapshot 7 (Val 5) (Val 2) =
     Inr \<lparr> ttg = Val (4859 / 1000), eta = Val 1004859 \<rparr>"
    using timeCalcs_d_exact [where w = 2 and src = sampleSnapshot and now = 7 and d = 5] w(1) f(1)
    by (simp add: sampleSnapshot_fields)
  show "timeCalcs_d exactArithmetic sampleSnapshot 8 (Val 10) (Val (- 2)) =
     Inr \<lparr> ttg = Val (- 9720 / 1000), eta = Val 990280 \<rparr>"
    using timeCalcs_d_exact [where w = "- 2" and src = sampleSnapshot and now = 8 and d = 10] w(2) f(2)
    by (simp add: sampleSnapshot_fields)
qed

lemma sample_calcs_d:
  "calcs_d exactArithmetic sampleGeodesy 7 8 sampleSnapshot =
     Inr (calcs sampleGeodesy 7 8 sampleSnapshot)"
proof (cases "calcs_d exactArithmetic sampleGeodesy 7 8 sampleSnapshot")
  case (Inr res)
  with calcs_d_exact [OF Inr] show ?thesis by simp
next
  case (Inl e)
  have "calcs_d exactArithmetic sampleGeodesy 7 8 sampleSnapshot \<noteq> Inl e"
    by (simp add: calcs_d_def newLatLon_def Let_def sampleSnapshot_fields(1-3)
          toRadians_d_exact vmg_d_exact vmg_def sampleSnapshot_fields(5-6)
          sampleGeodesy_def toLatLon_def pos_def toRadians_def sample_timeCalcs_d)
  with Inl show ?thesis by simp
qed

section \<open>Time to go and estimated time of arrival\<close>

text \<open>
  C4, amended.  In each branch of the result of a valid snapshot, time to go and
  estimated time of arrival are those that \<open>timeCalcs\<close> returns for the distance and the
  velocity made good of the branch.  \<open>timeCalcs\<close> returns the pair of \<open>null\<close>s exactly when
  the distance is not a number or the VMG is falsy; a VMG of zero is falsy, as is \<open>null\<close>.
  Otherwise, as long as the resulting instant lies in the range of \<open>Date\<close>, the time to
  go is the computed quotient \<open>distance / (VMG * 0.514444)\<close> rounded down to a whole
  number of milliseconds (the floor of a thousand times the quotient, divided by a
  thousand), and the estimated time of arrival is the instant that number of
  milliseconds after the snapshot's datetime, or after the reading of the clock when
  the snapshot has none.  In exact arithmetic the time to go is at most the quotient and
  less than a millisecond below it.
\<close>

theorem timeCalcs_d_time_to_go:
  assumes "navigation_position src = Some vp"
    and "navigation_course_nextPoint_position src = Some np"
    and "navigation_course_previousPoint_position src = Some pp"
    and "calcs_d D G nowGc nowRl src = Inr res"
    and "w \<noteq> 0"
  shows "(timeCalcs_d D src now dst v = Inr \<lparr> ttg = Null, eta = Null \<rparr>
            \<longleftrightarrow> \<not> isNumber dst \<or> \<not> truthy v)
       \<and> \<not> truthy (Val 0) \<and> \<not> truthy Null
       \<and> timeCalcs_d D src now (Val d) (Val w) =
         (if fl D (w * fl D 0.514444) = 0
             \<or> 8640000000000000 <
               \<bar>fl D (of_int (case navigation_datetime src of Some t \<Rightarrow> t | None \<Rightarrow> now)
                  + of_int \<lfloor>fl D (fl D (d / fl D (w * fl D 0.514444)) * 1000)\<rfloor>)\<bar>
          then Inl RangeError
          else Inr \<lparr> ttg = Val (fl D
                    (of_int \<lfloor>fl D (fl D (d / fl D (w * fl D 0.514444)) * 1000)\<rfloor> / 1000)),
                 eta = Val
                   (if 0 \<le> fl D
                      (of_int (case navigation_datetime src of Some t \<Rightarrow> t | None \<Rightarrow> now)
                       + of_int \<lfloor>fl D (fl D (d / fl D (w * fl D 0.514444)) * 1000)\<rfloor>)
                    then \<lfloor>fl D
                      (of_int (case navigation_datetime src of Some t \<Rightarrow> t | None \<Rightarrow> now)
                       + of_int \<lfloor>fl D (fl D (d / fl D (w * fl D 0.514444)) * 1000)\<rfloor>)\<rfloor>
                    else \<lceil>fl D
                      (of_int (case navigation_datetime src of Some t \<Rightarrow> t | None \<Rightarrow> now)
                       + of_int \<lfloor>fl D (fl D (d / fl D (w * fl D 0.514444)) * 1000)\<rfloor>)\<rceil>) \<rparr>)
       \<and> (\<bar>(case navigation_datetime src of Some t \<Rightarrow> t | None \<Rightarrow> now)
              + \<lfloor>(d / (w * 0.514444)) * 1000\<rfloor>\<bar> \<le> 8640000000000000 \<longrightarrow>
            timeCalcs_d exactArithmetic src now (Val d) (Val w) =
              Inr \<lparr> ttg = Val (of_int \<lfloor>(d / (w * 0.514444)) * 1000\<rfloor> / 1000),
                    eta = Val ((case navigation_datetime src of Some t \<Rightarrow> t | None \<Rightarrow> now)
                            + \<lfloor>(d / (w * 0.514444)) * 1000\<rfloor>) \<rparr>)
       \<and> d / (w * 0.514444) - 1 / 1000 < of_int \<lfloor>(d / (w * 0.514444)) * 1000\<rfloor> / 1000
       \<and> of_int \<lfloor>(d / (w * 0.514444)) * 1000\<rfloor> / (1000 :: real) \<le> d / (w * 0.514444)
       \<and> timeCalcs_d D src nowGc (distance (gc res)) (velocityMadeGood (gc res)) =
           Inr \<lparr> ttg = timeToGo (gc res), eta = estimatedTimeOfArrival (gc res) \<rparr>
       \<and> timeCalcs_d D src nowRl (distance (rl res)) (velocityMadeGood (rl res)) =
           Inr \<lparr> ttg = timeToGo (rl res), eta = estimatedTimeOfArrival (rl res) \<rparr>"
proof -
  have falsy: "\<not> truthy (Val 0)" "\<not> truthy Null"
    by simp_all
  note bounds = floor_ms_bounds [of "d / (w * 0.514444)"]
  have exact: "\<bar>(case navigation_datetime src of Some t \<Rightarrow> t | None \<Rightarrow> now)
              + \<lfloor>(d / (w * 0.514444)) * 1000\<rfloor>\<bar> \<le> 8640000000000000 \<longrightarrow>
            timeCalcs_d exactArithmetic src now (Val d) (Val w) =
              Inr \<lparr> ttg = Val (of_int \<lfloor>(d / (w * 0.514444)) * 1000\<rfloor> / 1000),
                    eta = Val ((case navigation_datetime src of Some t \<Rightarrow> t | None \<Rightarrow> now)
                            + \<lfloor>(d / (w * 0.514444)) * 1000\<rfloor>) \<rparr>"
    using timeCalcs_d_exact [OF assms(5)] by blast
  from timeCalcs_d_null_iff falsy(1) falsy(2) timeCalcs_d_numbers [OF assms(5)] exact
    bounds [THEN conjunct1] bounds [THEN conjunct2]
    calcs_d_valid(1) [OF assms(1-4)] calcs_d_valid(2) [OF assms(1-4)]
  show ?thesis
    by (intro conjI)
qed

theorem timeCalcs_d_time_to_go_witness:
  "navigation_position sampleSnapshot = Some (pos 0 15)
   \<and> calcs_d exactArithmetic sampleGeodesy 7 8 sampleSnapshot =
       Inr (calcs sampleGeodesy 7 8 sampleSnapshot)
   \<and> (2 :: real) \<noteq> 0
   \<and> timeCalcs_d exactArithmetic sampleSnapshot 7 (Val 5) (Val 2) =
       Inr \<lparr> ttg = Val (4859 / 1000), eta = Val 1004859 \<rparr>
   \<and> timeCalcs_d exactArithmetic sampleSnapshot 7
        (distance (gc (calcs sampleGeodesy 7 8 sampleSnapshot)))
        (velocityMadeGood (gc (calcs sampleGeodesy 7 8 sampleSnapshot))) =
       Inr \<lparr> ttg = timeToGo (gc (calcs sampleGeodesy 7 8 sampleSnapshot)),
             eta = estimatedTimeOfArrival (gc (calcs sampleGeodesy 7 8 sampleSnapshot)) \<rparr>"
proof -
  have w: "(2 :: real) \<noteq> 0" by simp
  have f: "\<lfloor>(5 / (2 * 0.514444)) * (1000 :: real)\<rfloor> = 4859"
    by (simp add: floor_eq_iff)
  show ?thesis
    using timeCalcs_d_time_to_go [OF sampleSnapshot_fields(1-3) sample_calcs_d w,
        where now = 7 and d = 5] sample_calcs_d
    by (simp add: sampleSnapshot_fields sample_timeCalcs_d)
qed

text \<open>
  C4 as stated fails.  The time to go is not the quotient itself: for the distance 1
  and the VMG 1 it is 1.943.  And there is a third outcome: for the distance 1 and a VMG
  of \<open>1e-20\<close> the instant leaves the range of \<open>Date\<close> and \<open>toISOString\<close> throws.
\<close>

theorem timeCalcs_d_counterexample:
  "timeCalcs_d exactArithmetic sampleSnapshot 0 (Val 1) (Val 1) =
     Inr \<lparr> ttg = Val (1943 / 1000), eta = Val 1001943 \<rparr>
   \<and> (1943 / 1000 :: real) \<noteq> 1 / (1 * 0.514444)
   \<and> timeCalcs_d exactArithmetic sampleSnapshot 0 (Val 1) (Val (1 / 10 ^ 20)) = Inl RangeError"
proof -
  have f1: "\<lfloor>(1 / (1 * 0.514444)) * (1000 :: real)\<rfloor> = 1943"
    by (simp add: floor_eq_iff)
  have a: "timeCalcs_d exactArithmetic sampleSnapshot 0 (Val 1) (Val 1) =
     Inr \<lparr> ttg = Val (1943 / 1000), eta = Val 1001943 \<rparr>"
    using timeCalcs_d_exact [where w = 1 and src = sampleSnapshot and now = 0 and d = 1] f1
    by (simp add: sampleSnapshot_fields)
  have b: "(1943 / 1000 :: real) \<noteq> 1 / (1 * 0.514444)"
    by simp
  have "(100000000000000000000000 :: real) \<le> (1 / ((1 / 10 ^ 20) * 0.514444)) * 1000"
    by simp
  then have "(100000000000000000000000 :: int)
      \<le> \<lfloor>(1 / ((1 / 10 ^ 20) * 0.514444)) * (1000 :: real)\<rfloor>"
    by (simp only: le_floor_iff of_int_numeral)
  then have "(8640000000000000 :: int)
      < 1000000 + \<lfloor>(1 / ((1 / 10 ^ 20) * 0.514444)) * (1000 :: real)\<rfloor>"
    by linarith
  then have "(8640000000000000 :: real)
      < real_of_int (1000000 + \<lfloor>(1 / ((1 / 10 ^ 20) * 0.514444)) * (1000 :: real)\<rfloor>)"
    by (simp only: of_int_less_iff [symmetric] of_int_numeral)
  then have "8640000000000000 <
      \<bar>real_of_int 1000000 + real_of_int \<lfloor>(1 / ((1 / 10 ^ 20) * 0.514444)) * (1000 :: real)\<rfloor>\<bar>"
    by (simp only: of_int_add)
  then have c: "timeCalcs_d exactArithmetic sampleSnapshot 0 (Val 1) (Val (1 / 10 ^ 20))
      = Inl RangeError"
    by (simp add: timeCalcs_d_numbers exact_sel sampleSnapshot_fields)
  from a b c show ?thesis by (intro conjI)
qed

lemma fl_negative:
  assumes "\<forall>x y. x \<le> y \<longrightarrow> fl D x \<le> fl D y" and "fl D 0 = 0"
    and "x < 0" and "fl D x \<noteq> 0"
  shows "fl D x < 0"
proof -
  from assms(1,3) have "fl D x \<le> fl D 0" by simp
  with assms(2,4) show ?thesis by simp
qed

lemma fl_positive:
  assumes "\<forall>x y. x \<le> y \<longrightarrow> fl D x \<le> fl D y" and "fl D 0 = 0"
    and "0 < x" and "fl D x \<noteq> 0"
  shows "0 < fl D x"
proof -
  from assms(1,3) have "fl D 0 \<le> fl D x" by simp
  with assms(2,4) show ?thesis by simp
qed

text \<open>
  C10, amended.  For a positive distance and a negative VMG, when no intermediate result
  underflows to zero and the resulting instant lies in the range of \<open>Date\<close>, \<open>timeCalcs\<close>
  returns a negative time to go (the floor of a thousand times the computed quotient,
  divided by a thousand) and an estimated time of arrival strictly before the snapshot's
  datetime (or the reading of the clock), not \<open>null\<close>.  The pair of \<open>null\<close>s is returned
  only when the distance is not a number or the VMG is zero or missing.  The rounding
  \<open>fl\<close> is monotone, keeps zero and is exact on the integers up to \<open>2^53\<close>, as the
  rounding of doubles is.
\<close>

theorem timeCalcs_d_negative_vmg:
  assumes "0 < d" and "w < 0"
    and "\<forall>x y. x \<le> y \<longrightarrow> fl D x \<le> fl D y" and "fl D 0 = 0"
    and "\<forall>n :: int. \<bar>n\<bar> \<le> 9007199254740992 \<longrightarrow> fl D (of_int n) = of_int n"
    and "fl D 0.514444 \<noteq> 0"
    and "fl D (w * fl D 0.514444) \<noteq> 0"
    and "fl D (d / fl D (w * fl D 0.514444)) \<noteq> 0"
    and "fl D (fl D (d / fl D (w * fl D 0.514444)) * 1000) \<noteq> 0"
    and "fl D (of_int \<lfloor>fl D (fl D (d / fl D (w * fl D 0.514444)) * 1000)\<rfloor> / 1000) \<noteq> 0"
    and "\<bar>(case navigation_datetime src of Some t \<Rightarrow> t | None \<Rightarrow> now)
           + \<lfloor>fl D (fl D (d / fl D (w * fl D 0.514444)) * 1000)\<rfloor>\<bar> \<le> 8640000000000000"
  shows "timeCalcs_d D src now (Val d) (Val w) =
           Inr \<lparr> ttg = Val (fl D
                   (of_int \<lfloor>fl D (fl D (d / fl D (w * fl D 0.514444)) * 1000)\<rfloor> / 1000)),
                 eta = Val ((case navigation_datetime src of Some t \<Rightarrow> t | None \<Rightarrow> now)
                   + \<lfloor>fl D (fl D (d / fl D (w * fl D 0.514444)) * 1000)\<rfloor>) \<rparr>
       \<and> fl D (of_int \<lfloor>fl D (fl D (d / fl D (w * fl D 0.514444)) * 1000)\<rfloor> / 1000) < 0
       \<and> (case navigation_datetime src of Some t \<Rightarrow> t | None \<Rightarrow> now)
             + \<lfloor>fl D (fl D (d / fl D (w * fl D 0.514444)) * 1000)\<rfloor>
           < (case navigation_datetime src of Some t \<Rightarrow> t | None \<Rightarrow> now)
       \<and> (timeCalcs_d D src now dst v = Inr \<lparr> ttg = Null, eta = Null \<rparr> \<longleftrightarrow>
            \<not> isNumber dst \<or> v = Val 0 \<or> v = Null \<or> v = Undefined)"
proof -
  note mono = assms(3) and zero = assms(4)
  let ?date = "case navigation_datetime src of Some t \<Rightarrow> t | None \<Rightarrow> now"
  let ?speed = "fl D (w * fl D 0.514444)"
  let ?qm = "fl D (fl D (d / ?speed) * 1000)"
  have k: "0 < fl D 0.514444"
    by (rule fl_positive [OF mono zero _ assms(6)]) simp
  with \<open>w < 0\<close> have "w * fl D 0.514444 < 0"
    by (simp add: mult_less_0_iff)
  then have speed: "?speed < 0"
    by (rule fl_negative [OF mono zero _ assms(7)])
  with \<open>0 < d\<close> have "d / ?speed < 0"
    by (simp add: divide_less_0_iff)
  then have "fl D (d / ?speed) < 0"
    by (rule fl_negative [OF mono zero _ assms(8)])
  then have "fl D (d / ?speed) * 1000 < 0"
    by simp
  then have "?qm < 0"
    by (rule fl_negative [OF mono zero _ assms(9)])
  then have t: "\<lfloor>?qm\<rfloor> < 0"
    by (simp only: floor_less_zero)
  then have "real_of_int \<lfloor>?qm\<rfloor> / 1000 < 0"
    by simp
  then have neg: "fl D (real_of_int \<lfloor>?qm\<rfloor> / 1000) < 0"
    by (rule fl_negative [OF mono zero _ assms(10)])
  from assms(11) have "\<bar>?date + \<lfloor>?qm\<rfloor>\<bar> \<le> 9007199254740992"
    by linarith
  with assms(5) have "fl D (of_int (?date + \<lfloor>?qm\<rfloor>)) = of_int (?date + \<lfloor>?qm\<rfloor>)"
    by blast
  then have sum: "fl D (of_int ?date + of_int \<lfloor>?qm\<rfloor>) = of_int (?date + \<lfloor>?qm\<rfloor>)"
    by simp
  from assms(11) have "\<bar>real_of_int (?date + \<lfloor>?qm\<rfloor>)\<bar> \<le> 8640000000000000"
    by linarith
  then have range: "\<not> 8640000000000000 < \<bar>real_of_int (?date + \<lfloor>?qm\<rfloor>)\<bar>"
    by simp
  from \<open>w < 0\<close> have "w \<noteq> 0" by simp
  have a: "timeCalcs_d D src now (Val d) (Val w) =
      Inr \<lparr> ttg = Val (fl D (of_int \<lfloor>?qm\<rfloor> / 1000)), eta = Val (?date + \<lfloor>?qm\<rfloor>) \<rparr>"
    using speed range
    unfolding timeCalcs_d_numbers [OF \<open>w \<noteq> 0\<close>] sum
    by simp
  have c: "?date + \<lfloor>?qm\<rfloor> < ?date"
    using t by simp
  have e: "timeCalcs_d D src now dst v = Inr \<lparr> ttg = Null, eta = Null \<rparr> \<longleftrightarrow>
            \<not> isNumber dst \<or> v = Val 0 \<or> v = Null \<or> v = Undefined"
    unfolding timeCalcs_d_null_iff by (cases v) simp_all
  from a neg c e show ?thesis
    by (intro conjI)
qed


theorem timeCalcs_d_negative_vmg_witness:
  "(0 :: real) < 10 \<and> (- 2 :: real) < 0
   \<and> timeCalcs_d exactArithmetic sampleSnapshot 8 (Val 10) (Val (- 2)) =
       Inr \<lparr> ttg = Val (- 9720 / 1000), eta = Val 990280 \<rparr>
   \<and> (- 9720 / 1000 :: real) < 0 \<and> (990280 :: int) < 1000000"
proof -
  have d: "(0 :: real) < 10" and w: "(- 2 :: real) < 0"
    by simp_all
  have f: "\<lfloor>(10 / (- 2 * 0.514444)) * (1000 :: real)\<rfloor> = - 9720"
    by (simp add: floor_eq_iff)
  have mono: "\<forall>x y. x \<le> y \<longrightarrow> fl exactArithmetic x \<le> fl exactArithmetic y"
    and zero: "fl exactArithmetic 0 = 0"
    and ints: "\<forall>n :: int. \<bar>n\<bar> \<le> 9007199254740992 \<longrightarrow>
        fl exactArithmetic (of_int n) = of_int n"
    by (simp_all add: exact_sel)
  have nz: "fl exactArithmetic 0.514444 \<noteq> 0"
    "fl exactArithmetic (- 2 * fl exactArithmetic 0.514444) \<noteq> 0"
    "fl exactArithmetic (10 / fl exactArithmetic (- 2 * fl exactArithmetic 0.514444)) \<noteq> 0"
    "fl exactArithmetic
       (fl exactArithmetic (10 / fl exactArithmetic (- 2 * fl exactArithmetic 0.514444))
          * 1000) \<noteq> 0"
    by (simp_all add: exact_sel)
  have q: "\<lfloor>fl exactArithmetic
       (fl exactArithmetic (10 / fl exactArithmetic (- 2 * fl exactArithmetic 0.514444))
          * 1000)\<rfloor> = - 9720"
    using f by (simp add: exact_sel)
  have nz5: "fl exactArithmetic (of_int \<lfloor>fl exactArithmetic
       (fl exactArithmetic (10 / fl exactArithmetic (- 2 * fl exactArithmetic 0.514444))
          * 1000)\<rfloor> / 1000) \<noteq> 0"
    unfolding q by (simp add: exact_sel)
  have range: "\<bar>(case navigation_datetime sampleSnapshot of Some t \<Rightarrow> t | None \<Rightarrow> 8)
      + \<lfloor>fl exactArithmetic
       (fl exactArithmetic (10 / fl exactArithmetic (- 2 * fl exactArithmetic 0.514444))
          * 1000)\<rfloor>\<bar> \<le> 8640000000000000"
    unfolding q by (simp add: sampleSnapshot_fields)
  show ?thesis
    using timeCalcs_d_negative_vmg [OF d w mono zero ints nz nz5 range] q
    by (simp add: sampleSnapshot_fields exact_sel)
qed

text \<open>
  C10 as stated fails at the distance 0, where the time to go of a negative VMG is 0 and
  the estimated time of arrival is the snapshot's datetime itself, and for a negative
  VMG as small as \<open>-1e-20\<close>, where the instant leaves the range of \<open>Date\<close> and
  \<open>toISOString\<close> throws.
\<close>

theorem timeCalcs_d_negative_counterexample:
  "timeCalcs_d exactArithmetic sampleSnapshot 7 (Val 0) (Val (- 1)) =
     Inr \<lparr> ttg = Val 0, eta = Val 1000000 \<rparr>
   \<and> navigation_datetime sampleSnapshot = Some 1000000
   \<and> timeCalcs_d exactArithmetic sampleSnapshot 7 (Val 1) (Val (- (1 / 10 ^ 20)))
       = Inl RangeError"
proof -
  have a: "timeCalcs_d exactArithmetic sampleSnapshot 7 (Val 0) (Val (- 1)) =
     Inr \<lparr> ttg = Val 0, eta = Val 1000000 \<rparr>"
    using timeCalcs_d_exact [where w = "- 1" and src = sampleSnapshot and now = 7 and d = 0]
    by (simp add: sampleSnapshot_fields)
  have "(1 / (- (1 / 10 ^ 20) * 0.514444)) * 1000 \<le> (- 100000000000000000000000 :: real)"
    by simp
  then have "\<lfloor>(1 / (- (1 / 10 ^ 20) * 0.514444)) * (1000 :: real)\<rfloor>
      \<le> (- 100000000000000000000000 :: int)"
    by (simp only: floor_le_iff)
  then have "1000000 + \<lfloor>(1 / (- (1 / 10 ^ 20) * 0.514444)) * (1000 :: real)\<rfloor>
      < (- 8640000000000000 :: int)"
    by linarith
  then have "real_of_int (1000000 + \<lfloor>(1 / (- (1 / 10 ^ 20) * 0.514444)) * (1000 :: real)\<rfloor>)
      < (- 8640000000000000 :: real)"
    by (simp only: of_int_less_iff [symmetric] of_int_numeral of_int_minus)
  then have "8640000000000000 <
      \<bar>real_of_int 1000000
        + real_of_int \<lfloor>(1 / (- (1 / 10 ^ 20) * 0.514444)) * (1000 :: real)\<rfloor>\<bar>"
    by (simp only: of_int_add)
  then have c: "timeCalcs_d exactArithmetic sampleSnapshot 7 (Val 1) (Val (- (1 / 10 ^ 20)))
      = Inl RangeError"
    by (simp add: timeCalcs_d_numbers exact_sel sampleSnapshot_fields)
  from a sampleSnapshot_fields(7) c show ?thesis by (intro conjI)
qed

section \<open>The passage flag in the result\<close>





end
